theory Spec2Isabelle
  imports Main "HOL-Library.Multiset"
begin

section \<open>Data model\<close>

text \<open>
  The block variant tag: the TypeScript literal union
  \<^verbatim>\<open>'markdown' | 'python' | 'csv'\<close>.
\<close>

datatype block_type = Markdown | Python | Csv

text \<open>
  Modelled from the spec: the declarations of \<^verbatim>\<open>Block\<close>, \<^verbatim>\<open>MarkdownBlock\<close>,
  \<^verbatim>\<open>PythonBlock\<close>, \<^verbatim>\<open>CsvBlock\<close> and \<^verbatim>\<open>Notebook\<close> live in \<^verbatim>\<open>lib/types\<close>, which is
  not among the sources. The fields are the ones the object literals of \<^verbatim>\<open>createBlock\<close>
  write and the data model of the spec lists. A block is one JavaScript object: the
  variant-specific fields (\<^verbatim>\<open>editMode\<close>; \<^verbatim>\<open>output\<close>, \<^verbatim>\<open>isExecuting\<close>) are optional
  properties, absent (\<open>None\<close>) on the other variants. The fields \<^verbatim>\<open>id\<close>, \<^verbatim>\<open>type\<close> and \<^verbatim>\<open>output\<close>
  carry a suffix (two object types share the first two names; the third is a keyword).

  \<^verbatim>\<open>position\<close> is a TypeScript \<^verbatim>\<open>number\<close>, a double; the spec's data model makes it
  an integer, and the model keeps the integer values: a position is an \<open>int\<close>. The one
  arithmetic operation the source applies to a position, \<^verbatim>\<open>position += 1\<close>, is not the
  addition of \<open>int\<close> but \<open>number_add\<close> below, which rounds as a double does.
\<close>

record block =
  id_b :: string
  type_b :: block_type
  filePath :: string
  position :: int
  created :: string
  updated :: string
  editMode :: "bool option"
  output_b :: "string option"
  isExecuting :: "bool option"

record file_descriptor =
  path :: string
  type_f :: block_type

record notebook =
  id_n :: string
  blocks :: "block list"
  files :: "file_descriptor list"

text \<open>
  The update payload, \<^verbatim>\<open>Partial<MarkdownBlock | PythonBlock | CsvBlock>\<close>: every field
  of every variant, each optional. \<open>None\<close> is a property the payload does not have.
\<close>

record block_updates =
  id_u :: "string option"
  type_u :: "block_type option"
  filePath_u :: "string option"
  position_u :: "int option"
  created_u :: "string option"
  updated_u :: "string option"
  editMode_u :: "bool option"
  output_u :: "string option"
  isExecuting_u :: "bool option"

text \<open>The two \<^verbatim>\<open>useState\<close> cells of \<^verbatim>\<open>NotebookProvider\<close>.\<close>

record provider_state =
  notebook :: "notebook option"
  selectedBlockId :: "string option"

datatype error = Error string

section \<open>The notebook context\<close>

definition setNotebook :: "notebook \<Rightarrow> provider_state \<Rightarrow> provider_state" where
  "setNotebook nb st = st\<lparr>notebook := Some nb\<rparr>"

definition selectBlock :: "string option \<Rightarrow> provider_state \<Rightarrow> provider_state" where
  "selectBlock i st = st\<lparr>selectedBlockId := i\<rparr>"

subsection \<open>updateBlock\<close>

text \<open>
  The object spread \<^verbatim>\<open>{ ...block, ...updates }\<close>: the properties of the block, then
  every property the payload has, which replaces the block's property of that name.
  The \<^verbatim>\<open>as MarkdownBlock\<close> that follows it in the source is a compile-time assertion
  and leaves the object as it is.
\<close>

definition spread :: "block \<Rightarrow> block_updates \<Rightarrow> block" where
  "spread block updates =
     \<lparr> id_b = (case id_u updates of None \<Rightarrow> id_b block | Some v \<Rightarrow> v),
       type_b = (case type_u updates of None \<Rightarrow> type_b block | Some v \<Rightarrow> v),
       filePath = (case filePath_u updates of None \<Rightarrow> filePath block | Some v \<Rightarrow> v),
       position = (case position_u updates of None \<Rightarrow> position block | Some v \<Rightarrow> v),
       created = (case created_u updates of None \<Rightarrow> created block | Some v \<Rightarrow> v),
       updated = (case updated_u updates of None \<Rightarrow> updated block | Some v \<Rightarrow> v),
       editMode = (case editMode_u updates of None \<Rightarrow> editMode block | Some v \<Rightarrow> Some v),
       output_b = (case output_u updates of None \<Rightarrow> output_b block | Some v \<Rightarrow> Some v),
       isExecuting =
         (case isExecuting_u updates of None \<Rightarrow> isExecuting block | Some v \<Rightarrow> Some v) \<rparr>"

text \<open>The callback of \<^verbatim>\<open>notebook.blocks.map\<close>, with the three branches of the source.\<close>

definition updateBlock_callback :: "string \<Rightarrow> block_updates \<Rightarrow> block \<Rightarrow> block" where
  "updateBlock_callback i updates block =
     (if id_b block \<noteq> i then block
      else if type_b block = Markdown then spread block updates
      else if type_b block = Python then spread block updates
      else spread block updates)"

definition updateBlock :: "string \<Rightarrow> block_updates \<Rightarrow> provider_state \<Rightarrow> provider_state" where
  "updateBlock i updates st =
     (case notebook st of
        None \<Rightarrow> st
      | Some nb \<Rightarrow>
          (let updatedBlocks = map (updateBlock_callback i updates) (blocks nb)
           in setNotebook (nb\<lparr>blocks := updatedBlocks\<rparr>) st))"

subsection \<open>Arithmetic on numbers\<close>

text \<open>
  A JavaScript \<^verbatim>\<open>number\<close> is an IEEE 754 double: a sum is the exact sum rounded to the
  nearest double, a tie going to the double whose last significand bit is zero. On
  integers: an integer of at most 53 bits is a double; a longer one is rounded to 53
  significant bits. (No integer sum of two positions reaches the overflow threshold
  of \<open>2 ^ 1024\<close> without being rounded back below it, so infinity does not arise.)
\<close>

fun bit_length :: "nat \<Rightarrow> nat" where
  "bit_length m = (if m = 0 then 0 else Suc (bit_length (m div 2)))"

declare bit_length.simps [simp del]

definition round_double :: "int \<Rightarrow> int" where
  "round_double n =
     (let m = nat \<bar>n\<bar>;
          k = bit_length m - 53;
          q = m div 2 ^ k;
          r = m mod 2 ^ k;
          q' = (if 2 * r > 2 ^ k \<or> (2 * r = 2 ^ k \<and> odd q) then q + 1 else q)
      in sgn n * int (q' * 2 ^ k))"

text \<open>The operator \<^verbatim>\<open>+\<close> on two integer-valued numbers.\<close>

definition number_add :: "int \<Rightarrow> int \<Rightarrow> int" where
  "number_add x y = round_double (x + y)"

text \<open>\<^verbatim>\<open>Number.MAX_SAFE_INTEGER\<close> and \<^verbatim>\<open>Number.isSafeInteger\<close>, on integers.\<close>

definition MAX_SAFE_INTEGER :: int where
  "MAX_SAFE_INTEGER = 2 ^ 53 - 1"

definition isSafeInteger :: "int \<Rightarrow> bool" where
  "isSafeInteger x = (- MAX_SAFE_INTEGER \<le> x \<and> x \<le> MAX_SAFE_INTEGER)"

subsection \<open>createBlock\<close>

text \<open>
  What \<^verbatim>\<open>createBlock\<close> takes from outside: the clock (\<^verbatim>\<open>new Date().toISOString()\<close>), the
  identifier generator (\<^verbatim>\<open>generateUUID\<close> of \<^verbatim>\<open>lib/utils\<close>) and \<^verbatim>\<open>fetch\<close>. The promise
  of \<^verbatim>\<open>fetch\<close> either resolves (\<open>None\<close>; an HTTP error status resolves too) or is
  rejected with an error (\<open>Some\<close> of its text). The request is the one the source
  builds: the URL, the HTTP verb, the headers and the object it sends as JSON.
\<close>

record fetch_request =
  url :: string
  http_method :: string
  headers :: "(string \<times> string) list"
  body_json :: "(string \<times> string) list"

record env =
  now :: string
  generateUUID :: string
  fetch :: "fetch_request \<Rightarrow> string option"

text \<open>
  The loop
  \<^verbatim>\<open>for (let i = 0; i < updatedBlocks.length; i++)
    if (updatedBlocks[i].position >= newPosition) updatedBlocks[i].position += 1;\<close>
  from index \<open>i\<close> on. The array is a copy, its elements are the block objects of the
  current notebook, and the loop writes to them in place; the state the call commits
  holds the array the loop leaves, which is what the function returns. The comparison
  \<^verbatim>\<open>>=\<close> of two numbers is the comparison of their values.
\<close>

function shift_loop :: "int \<Rightarrow> nat \<Rightarrow> block list \<Rightarrow> block list" where
  "shift_loop newPosition i updatedBlocks =
     (if i < length updatedBlocks then
        shift_loop newPosition (i + 1)
          (if position (updatedBlocks ! i) \<ge> newPosition
           then updatedBlocks[i := (updatedBlocks ! i)
                  \<lparr>position := number_add (position (updatedBlocks ! i)) 1\<rparr>]
           else updatedBlocks)
      else updatedBlocks)"
  by pat_completeness auto
termination
  by (relation "measure (\<lambda>(newPosition, i, updatedBlocks). length updatedBlocks - i)") auto

declare shift_loop.simps [simp del]

definition extension :: "block_type \<Rightarrow> string" where
  "extension ty = (if ty = Markdown then ''md'' else if ty = Python then ''py'' else ''csv'')"

definition newBlock :: "string \<Rightarrow> block_type \<Rightarrow> string \<Rightarrow> int \<Rightarrow> string \<Rightarrow> block" where
  "newBlock i ty fp newPosition n =
     (if ty = Markdown then
        \<lparr> id_b = i, type_b = Markdown, filePath = fp, position = newPosition,
          created = n, updated = n, editMode = Some True, output_b = None, isExecuting = None \<rparr>
      else if ty = Python then
        \<lparr> id_b = i, type_b = Python, filePath = fp, position = newPosition,
          created = n, updated = n, editMode = None, output_b = Some '''',
          isExecuting = Some False \<rparr>
      else
        \<lparr> id_b = i, type_b = Csv, filePath = fp, position = newPosition,
          created = n, updated = n, editMode = None, output_b = None, isExecuting = None \<rparr>)"

text \<open>
  The result of a call: the promise is rejected with an error (\<open>Inl\<close>), before any state
  is written, or resolves to the new identifier, with the provider state the call has
  committed and the lines it wrote with \<^verbatim>\<open>console.error\<close>. \<^verbatim>\<open>Array.prototype.sort\<close> is
  stable, and the comparator \<^verbatim>\<open>a.position - b.position\<close> has the sign of the exact
  difference (a difference of two distinct doubles does not round to zero), so the
  sort is \<open>sort_key position\<close>.
\<close>

definition createBlock ::
  "env \<Rightarrow> block_type \<Rightarrow> int option \<Rightarrow> provider_state
     \<Rightarrow> error + (string \<times> provider_state \<times> string list)" where
  "createBlock e ty pos st =
     (case notebook st of
        None \<Rightarrow> Inl (Error ''No notebook loaded'')
      | Some nb \<Rightarrow>
          (let n = now e;
               i = generateUUID e;
               newPosition = (case pos of Some p \<Rightarrow> p | None \<Rightarrow> int (length (blocks nb)));
               fp = id_n nb @ ''/'' @ i @ ''.'' @ extension ty;
               nblock = newBlock i ty fp newPosition n;
               updatedBlocks = blocks nb;
               updatedBlocks =
                 (if pos \<noteq> None then shift_loop newPosition 0 updatedBlocks
                  else updatedBlocks);
               updatedBlocks = updatedBlocks @ [nblock];
               updatedBlocks = sort_key position updatedBlocks;
               st' = setNotebook
                       (nb\<lparr>blocks := updatedBlocks,
                           files := files nb @ [\<lparr>path = fp, type_f = ty\<rparr>]\<rparr>) st;
               console =
                 (case fetch e \<lparr> url = ''/api/files'', http_method = ''POST'',
                                headers = [(''Content-Type'', ''application/json'')],
                                body_json = [(''path'', fp), (''content'', '''')] \<rparr> of
                    None \<Rightarrow> []
                  | Some err \<Rightarrow> [''Failed to create file: '' @ err])
           in Inr (i, st', console)))"

text \<open>What one round of that loop does to the block it visits.\<close>

definition shift_block :: "int \<Rightarrow> block \<Rightarrow> block" where
  "shift_block newPosition b =
     (if position b \<ge> newPosition then b\<lparr>position := number_add (position b) 1\<rparr>
      else b)"

text \<open>The same round where the sum is exact: the position goes up by one.\<close>

definition shift_exact :: "int \<Rightarrow> block \<Rightarrow> block" where
  "shift_exact newPosition b =
     (if position b \<ge> newPosition then b\<lparr>position := position b + 1\<rparr> else b)"


section \<open>The file endpoint\<close>

text \<open>
  The storage service comes from \<^verbatim>\<open>getStorageService\<close> of \<^verbatim>\<open>lib/storage\<close>, which is not
  among the sources: it is a parameter. Each of its operations, and obtaining the
  service itself, either throws (\<open>Inl\<close> of the error's text) or returns.
\<close>

record storage_service =
  getFile :: "string \<Rightarrow> string + string"
  deleteFile :: "string \<Rightarrow> string + unit"

datatype json = JString string | JBool bool

record response =
  status :: nat
  body :: "(string \<times> json) list"

text \<open>\<^verbatim>\<open>NextResponse.json(body)\<close> answers with status 200 unless one is given.\<close>

definition NextResponse_json :: "(string \<times> json) list \<Rightarrow> nat option \<Rightarrow> response" where
  "NextResponse_json b s = \<lparr> status = (case s of None \<Rightarrow> 200 | Some c \<Rightarrow> c), body = b \<rparr>"

text \<open>\<^verbatim>\<open>Array.prototype.join\<close> on an array of strings.\<close>

fun join :: "string list \<Rightarrow> string \<Rightarrow> string" where
  "join [] sep = ''''"
| "join [x] sep = x"
| "join (x # y # ys) sep = x @ sep @ join (y # ys) sep"

text \<open>The body of each \<^verbatim>\<open>try\<close> block: \<open>Inl\<close> is the exception that leaves it.\<close>

definition GET_try :: "(string + storage_service) \<Rightarrow> string list \<Rightarrow> string + response" where
  "GET_try getStorageService params_path =
     (let fp = join params_path ''/'' in
      case getStorageService of
        Inl err \<Rightarrow> Inl err
      | Inr storageService \<Rightarrow>
          (case getFile storageService fp of
             Inl err \<Rightarrow> Inl err
           | Inr content \<Rightarrow> Inr (NextResponse_json [(''content'', JString content)] None)))"

definition DELETE_try :: "(string + storage_service) \<Rightarrow> string list \<Rightarrow> string + response" where
  "DELETE_try getStorageService params_path =
     (let fp = join params_path ''/'' in
      case getStorageService of
        Inl err \<Rightarrow> Inl err
      | Inr storageService \<Rightarrow>
          (case deleteFile storageService fp of
             Inl err \<Rightarrow> Inl err
           | Inr u \<Rightarrow> Inr (NextResponse_json [(''success'', JBool True)] None)))"

text \<open>
  The handlers: the \<^verbatim>\<open>try\<close> block, and the \<^verbatim>\<open>catch\<close> block on its exception. The result
  is the exception the handler lets through (\<open>Inl\<close>) or its response, and the lines
  written with \<^verbatim>\<open>console.error\<close>.
\<close>

definition GET ::
  "(string + storage_service) \<Rightarrow> string list \<Rightarrow> (string + response) \<times> string list" where
  "GET getStorageService params_path =
     (case GET_try getStorageService params_path of
        Inr r \<Rightarrow> (Inr r, [])
      | Inl err \<Rightarrow>
          (Inr (NextResponse_json [(''error'', JString ''Failed to fetch file'')] (Some 500)),
           [''Error fetching file '' @ join params_path ''/'' @ '': '' @ err]))"

definition DELETE ::
  "(string + storage_service) \<Rightarrow> string list \<Rightarrow> (string + response) \<times> string list" where
  "DELETE getStorageService params_path =
     (case DELETE_try getStorageService params_path of
        Inr r \<Rightarrow> (Inr r, [])
      | Inl err \<Rightarrow>
          (Inr (NextResponse_json [(''error'', JString ''Failed to delete file'')] (Some 500)),
           [''Error deleting file '' @ join params_path ''/'' @ '': '' @ err]))"

section \<open>Observations and sequences of calls\<close>

text \<open>The positions of the blocks of the notebook, in the order of the block list.\<close>

definition positions :: "provider_state \<Rightarrow> int list" where
  "positions st = (case notebook st of None \<Rightarrow> [] | Some nb \<Rightarrow> map position (blocks nb))"

definition positions_after ::
  "error + (string \<times> provider_state \<times> string list) \<Rightarrow> int list" where
  "positions_after r = (case r of Inl err \<Rightarrow> [] | Inr (i, st', console) \<Rightarrow> positions st')"

definition positions_final :: "error + provider_state \<Rightarrow> int list" where
  "positions_final r = (case r of Inl err \<Rightarrow> [] | Inr st' \<Rightarrow> positions st')"

text \<open>
  A sequence of \<^verbatim>\<open>createBlock(type, position)\<close> calls, each with its own clock reading,
  identifier and \<^verbatim>\<open>fetch\<close> outcome. The component renders again between two calls, so
  each call reads the notebook the call before it has committed.
\<close>

fun createBlock_seq ::
  "(env \<times> block_type \<times> int) list \<Rightarrow> provider_state \<Rightarrow> error + provider_state" where
  "createBlock_seq [] st = Inr st"
| "createBlock_seq ((e, ty, p) # calls) st =
     (case createBlock e ty (Some p) st of
        Inl err \<Rightarrow> Inl err
      | Inr (i, st', console) \<Rightarrow> createBlock_seq calls st')"

section \<open>Concrete inputs\<close>

definition fetch_resolves :: "fetch_request \<Rightarrow> string option" where
  "fetch_resolves r = None"

definition fetch_rejects :: "fetch_request \<Rightarrow> string option" where
  "fetch_rejects r = Some ''TypeError: Failed to fetch''"

definition example_env :: env where
  "example_env =
     \<lparr> now = ''2025-01-01T00:00:00.000Z'', generateUUID = ''new'', fetch = fetch_resolves \<rparr>"

definition example_block :: "string \<Rightarrow> int \<Rightarrow> block" where
  "example_block i p =
     \<lparr> id_b = i, type_b = Markdown, filePath = ''nb/'' @ i @ ''.md'', position = p,
       created = ''2024-01-01T00:00:00.000Z'', updated = ''2024-01-01T00:00:00.000Z'',
       editMode = Some False, output_b = None, isExecuting = None \<rparr>"

definition example_notebook :: "block list \<Rightarrow> notebook" where
  "example_notebook bs = \<lparr> id_n = ''nb'', blocks = bs, files = [] \<rparr>"

definition example_state :: "block list \<Rightarrow> provider_state" where
  "example_state bs = \<lparr> notebook = Some (example_notebook bs), selectedBlockId = None \<rparr>"

definition no_notebook :: provider_state where
  "no_notebook = \<lparr> notebook = None, selectedBlockId = Some ''a'' \<rparr>"

text \<open>The payload \<^verbatim>\<open>{}\<close>, and the payload \<^verbatim>\<open>{ type: 'python' }\<close>.\<close>

definition no_updates :: block_updates where
  "no_updates =
     \<lparr> id_u = None, type_u = None, filePath_u = None, position_u = None, created_u = None,
       updated_u = None, editMode_u = None, output_u = None, isExecuting_u = None \<rparr>"

definition type_python :: block_updates where
  "type_python = no_updates\<lparr>type_u := Some Python\<rparr>"

text \<open>A storage service that holds the one file \<^verbatim>\<open>a/b.txt\<close> and throws on any other path.\<close>

definition example_getFile :: "string \<Rightarrow> string + string" where
  "example_getFile fp = (if fp = ''a/b.txt'' then Inr ''hello'' else Inl ''ENOENT'')"

definition example_deleteFile :: "string \<Rightarrow> string + unit" where
  "example_deleteFile fp = (if fp = ''a/b.txt'' then Inr () else Inl ''ENOENT'')"

definition example_storage :: storage_service where
  "example_storage = \<lparr> getFile = example_getFile, deleteFile = example_deleteFile \<rparr>"

section \<open>Rounding\<close>

lemma bit_length_0 [simp]: "bit_length 0 = 0"
  by (simp add: bit_length.simps)

lemma bit_length_1 [simp]: "bit_length (Suc 0) = Suc 0"
  by (simp add: bit_length.simps [of "Suc 0"])

lemma bit_length_le: "m < 2 ^ k \<Longrightarrow> bit_length m \<le> k"
proof (induction k arbitrary: m)
  case 0
  then show ?case by simp
next
  case (Suc k)
  show ?case
  proof (cases "m = 0")
    case True
    then show ?thesis by simp
  next
    case False
    have "m div 2 < 2 ^ k" using Suc.prems by simp
    then have "bit_length (m div 2) \<le> k" by (rule Suc.IH)
    then show ?thesis using False by (simp add: bit_length.simps [of m])
  qed
qed

lemma bit_length_eq: "2 ^ k \<le> m \<Longrightarrow> m < 2 ^ Suc k \<Longrightarrow> bit_length m = Suc k"
proof (induction k arbitrary: m)
  case 0
  then have "m = 1" by simp
  then show ?case by simp
next
  case (Suc k)
  have "2 ^ k \<le> m div 2" "m div 2 < 2 ^ Suc k" using Suc.prems by auto
  then have ih: "bit_length (m div 2) = Suc k" by (rule Suc.IH)
  have "(0::nat) < 2 ^ Suc k" by simp
  with Suc.prems(1) have "m \<noteq> 0" by linarith
  with ih show ?case by (simp add: bit_length.simps [of m])
qed

text \<open>An integer of at most 53 bits, and the power \<open>2 ^ 53\<close>, are doubles.\<close>

lemma round_double_small:
  assumes "\<bar>n\<bar> < 2 ^ 53"
  shows "round_double n = n"
proof -
  have "nat \<bar>n\<bar> < 2 ^ 53" using assms by (simp add: nat_less_iff)
  then have "bit_length (nat \<bar>n\<bar>) - 53 = 0"
    using bit_length_le [of "nat \<bar>n\<bar>" 53] by simp
  then show ?thesis
    by (simp add: round_double_def Let_def sgn_if abs_if)
qed

lemma round_double_pow53:
  assumes "\<bar>n\<bar> = 2 ^ 53"
  shows "round_double n = n"
proof -
  have m: "nat \<bar>n\<bar> = 2 ^ 53" using assms by simp
  have "bit_length (nat \<bar>n\<bar>) = Suc 53"
    unfolding m by (rule bit_length_eq) simp_all
  then have k: "bit_length (nat \<bar>n\<bar>) - 53 = 1" by simp
  have "n = 2 ^ 53 \<or> n = - (2 ^ 53)" using assms by (auto simp: abs_if split: if_splits)
  then show ?thesis
    by (auto simp: round_double_def Let_def k)
qed

lemma number_add_safe: "isSafeInteger x \<Longrightarrow> number_add x 1 = x + 1"
proof -
  assume "isSafeInteger x"
  then have "\<bar>x + 1\<bar> < 2 ^ 53 \<or> \<bar>x + 1\<bar> = 2 ^ 53"
    by (auto simp: isSafeInteger_def MAX_SAFE_INTEGER_def)
  then show ?thesis
    using round_double_small [of "x + 1"] round_double_pow53 [of "x + 1"]
    by (auto simp: number_add_def)
qed

text \<open>At \<open>2 ^ 53\<close> the sum with one is a tie and is rounded back: \<^verbatim>\<open>+= 1\<close> changes nothing.\<close>

lemma number_add_absorbed: "number_add 9007199254740992 1 = 9007199254740992"
proof -
  have "bit_length (nat \<bar>9007199254740992 + 1\<bar>) = Suc 53"
    by (rule bit_length_eq) simp_all
  then have k: "bit_length (nat \<bar>9007199254740992 + 1\<bar>) - 53 = 1" by simp
  show ?thesis
    unfolding number_add_def round_double_def Let_def k by simp
qed

section \<open>The renumbering loop and the sort\<close>

text \<open>The loop leaves the blocks before index \<open>i\<close> alone and shifts each block from there on.\<close>

lemma shift_loop_take_drop:
  "shift_loop p i xs = take i xs @ map (shift_block p) (drop i xs)"
proof (induction p i xs rule: shift_loop.induct)
  case (1 p i xs)
  show ?case
  proof (cases "i < length xs")
    case False
    then show ?thesis by (simp add: shift_loop.simps [of p i xs])
  next
    case True
    let ?ys = "if p \<le> position (xs ! i)
               then xs[i := (xs ! i)\<lparr>position := number_add (position (xs ! i)) 1\<rparr>] else xs"
    have step: "shift_loop p i xs = shift_loop p (i + 1) ?ys"
      using True by (subst shift_loop.simps) simp
    have ih: "shift_loop p (i + 1) ?ys = take (i + 1) ?ys @ map (shift_block p) (drop (i + 1) ?ys)"
      using "1.IH" [OF True] by simp
    have tk: "take (i + 1) ?ys = take i xs @ [shift_block p (xs ! i)]"
      using True by (simp add: take_Suc_conv_app_nth shift_block_def)
    have dr: "drop (i + 1) ?ys = drop (i + 1) xs" by simp
    have "drop i xs = xs ! i # drop (i + 1) xs"
      using True by (simp add: Cons_nth_drop_Suc)
    then show ?thesis using step ih tk dr by simp
  qed
qed

lemma shift_loop_map: "shift_loop p 0 xs = map (shift_block p) xs"
  using shift_loop_take_drop [of p 0 xs] by simp

text \<open>On safe integers the loop adds exactly one.\<close>

lemma shift_block_safe: "isSafeInteger (position b) \<Longrightarrow> shift_block p b = shift_exact p b"
  by (simp add: shift_block_def shift_exact_def number_add_safe)

lemma map_shift_block_safe:
  "\<forall>b\<in>set xs. isSafeInteger (position b) \<Longrightarrow> map (shift_block p) xs = map (shift_exact p) xs"
  by (simp add: shift_block_safe)

lemma shift_exact_lambda:
  "shift_exact p = (\<lambda>b. if p \<le> position b then b\<lparr>position := position b + 1\<rparr> else b)"
  by (rule ext) (simp add: shift_exact_def)

lemma position_shift_exact:
  "position (shift_exact p b) = (if p \<le> position b then position b + 1 else position b)"
  by (simp add: shift_exact_def)

lemma shift_exact_le_iff:
  "(position (shift_exact p a) \<le> position (shift_exact p b)) = (position a \<le> position b)"
  by (simp add: position_shift_exact)

lemma shift_exact_neq: "position (shift_exact p b) \<noteq> p"
  by (simp add: position_shift_exact)

lemma shift_exact_notin: "p \<notin> position ` set (map (shift_exact p) xs)"
  using shift_exact_neq by (auto simp: image_iff) metis

lemma shift_exact_bounds:
  "position b \<le> position (shift_exact p b) \<and> position (shift_exact p b) \<le> position b + 1"
  by (simp add: position_shift_exact)

lemma distinct_shift:
  assumes "distinct (map position xs)"
  shows "distinct (map position (map (shift_exact p) xs))"
proof -
  have "map position (map (shift_exact p) xs) =
        map (\<lambda>q. if p \<le> q then q + 1 else q) (map position xs)"
    by (simp add: position_shift_exact)
  moreover have "inj (\<lambda>q::int. if p \<le> q then q + 1 else q)"
    by (auto simp: inj_def split: if_splits)
  ultimately show ?thesis
    using assms by (simp only: distinct_map) (auto intro: inj_on_subset)
qed

text \<open>Sorting commutes with a map that keeps the order of the keys.\<close>

lemma insort_key_map_mono:
  "\<forall>y\<in>set ys. (k (g x) \<le> k (g y)) = (k x \<le> k y) \<Longrightarrow>
   insort_key k (g x) (map g ys) = map g (insort_key k x ys)"
  by (induction ys) auto

lemma sort_key_map_mono:
  "\<forall>x\<in>set xs. \<forall>y\<in>set xs. (k (g x) \<le> k (g y)) = (k x \<le> k y) \<Longrightarrow>
   sort_key k (map g xs) = map g (sort_key k xs)"
proof (induction xs)
  case Nil
  then show ?case by simp
next
  case (Cons a xs)
  have "sort_key k (map g xs) = map g (sort_key k xs)"
    using Cons by simp
  moreover have "insort_key k (g a) (map g (sort_key k xs)) =
                 map g (insort_key k a (sort_key k xs))"
    using Cons.prems by (intro insort_key_map_mono) simp
  ultimately show ?case by simp
qed

lemma sort_key_shift_exact:
  "sort_key position (map (shift_exact p) xs) = map (shift_exact p) (sort_key position xs)"
  by (intro sort_key_map_mono) (simp add: shift_exact_le_iff)

lemma distinct_map_sort_key:
  "distinct (map f (sort_key f xs)) = distinct (map f xs)"
  by (simp add: distinct_map)

lemma strict_sorted_sort_key:
  "distinct (map f xs) \<Longrightarrow> sorted_wrt (<) (map f (sort_key f xs))"
  for f :: "'a \<Rightarrow> int"
  by (simp add: strict_sorted_iff distinct_map_sort_key)

lemma distinct_positions_append_new:
  assumes "distinct (map position xs)" and "p \<notin> position ` set xs" and "position new = p"
  shows "distinct (map position (sort_key position (xs @ [new])))"
  using assms by (simp add: distinct_map_sort_key)

lemma filter_new_out:
  assumes "p \<notin> position ` set xs" and "position new = p"
  shows "filter (\<lambda>b. position b \<noteq> p) (sort_key position (xs @ [new])) = sort_key position xs"
proof -
  have "\<forall>b\<in>set xs. position b \<noteq> p"
    using assms(1) by blast
  then have "filter (\<lambda>b. position b \<noteq> p) (xs @ [new]) = xs"
    using assms(2) by (simp add: filter_id_conv)
  then show ?thesis by (simp only: filter_sort)
qed

section \<open>What a call of createBlock commits\<close>

lemma position_newBlock [simp]: "position (newBlock i ty fp p n) = p"
  by (simp add: newBlock_def)

lemma id_newBlock [simp]: "id_b (newBlock i ty fp p n) = i"
  by (simp add: newBlock_def)

lemma type_newBlock [simp]: "type_b (newBlock i ty fp p n) = ty"
  by (cases ty) (simp_all add: newBlock_def)

lemma filePath_newBlock [simp]: "filePath (newBlock i ty fp p n) = fp"
  by (simp add: newBlock_def)

lemma createBlock_loaded:
  assumes "notebook st = Some nb"
  shows "\<exists>console. createBlock e ty pos st =
    Inr (generateUUID e,
         st\<lparr>notebook := Some (nb
           \<lparr>blocks := sort_key position
               ((case pos of None \<Rightarrow> blocks nb | Some p \<Rightarrow> map (shift_block p) (blocks nb)) @
                [newBlock (generateUUID e) ty
                   (id_n nb @ ''/'' @ generateUUID e @ ''.'' @ extension ty)
                   (case pos of Some p \<Rightarrow> p | None \<Rightarrow> int (length (blocks nb))) (now e)]),
            files := files nb @
                [\<lparr>path = id_n nb @ ''/'' @ generateUUID e @ ''.'' @ extension ty,
                  type_f = ty\<rparr>]\<rparr>)\<rparr>,
         console)"
  using assms
  by (cases pos) (simp_all add: createBlock_def Let_def setNotebook_def shift_loop_map)

text \<open>With an explicit position and safe positions in the notebook, every shift is exact.\<close>

lemma createBlock_loaded_safe:
  assumes "notebook st = Some nb" and "\<forall>b\<in>set (blocks nb). isSafeInteger (position b)"
  shows "\<exists>console. createBlock e ty (Some p) st =
    Inr (generateUUID e,
         st\<lparr>notebook := Some (nb
           \<lparr>blocks := sort_key position
               (map (shift_exact p) (blocks nb) @
                [newBlock (generateUUID e) ty
                   (id_n nb @ ''/'' @ generateUUID e @ ''.'' @ extension ty) p (now e)]),
            files := files nb @
                [\<lparr>path = id_n nb @ ''/'' @ generateUUID e @ ''.'' @ extension ty,
                  type_f = ty\<rparr>]\<rparr>)\<rparr>,
         console)"
  using createBlock_loaded [OF assms(1), of e ty "Some p"] map_shift_block_safe [OF assms(2), of p]
  by simp

lemma createBlock_strictly_ordered:
  assumes "notebook st = Some nb" and "distinct (map position (blocks nb))"
    and "\<forall>b\<in>set (blocks nb). isSafeInteger (position b)"
  shows "\<exists>nb' i console.
           createBlock e ty (Some p) st = Inr (i, st\<lparr>notebook := Some nb'\<rparr>, console)
         \<and> sorted_wrt (<) (map position (blocks nb'))
         \<and> (\<forall>x\<in>set (map position (blocks nb')).
               x = p \<or> (\<exists>y\<in>set (map position (blocks nb)). y \<le> x \<and> x \<le> y + 1))"
proof -
  let ?new = "newBlock (generateUUID e) ty
                 (id_n nb @ ''/'' @ generateUUID e @ ''.'' @ extension ty) p (now e)"
  let ?nb' = "nb\<lparr>blocks := sort_key position (map (shift_exact p) (blocks nb) @ [?new]),
               files := files nb @
                 [\<lparr>path = id_n nb @ ''/'' @ generateUUID e @ ''.'' @ extension ty,
                   type_f = ty\<rparr>]\<rparr>"
  from createBlock_loaded_safe [OF assms(1) assms(3), of e ty p]
  obtain console where
    c: "createBlock e ty (Some p) st = Inr (generateUUID e, st\<lparr>notebook := Some ?nb'\<rparr>, console)"
    by auto
  have "distinct (map position (map (shift_exact p) (blocks nb) @ [?new]))"
    using distinct_shift [OF assms(2), of p] shift_exact_neq [of p, symmetric] by auto
  then have s: "sorted_wrt (<) (map position (blocks ?nb'))"
    using strict_sorted_sort_key [of position "map (shift_exact p) (blocks nb) @ [?new]"] by simp
  have b: "\<forall>x\<in>set (map position (blocks ?nb')).
               x = p \<or> (\<exists>y\<in>set (map position (blocks nb)). y \<le> x \<and> x \<le> y + 1)"
    using shift_exact_bounds [of _ p] by auto
  from c s b show ?thesis by blast
qed

section \<open>updateBlock\<close>

text \<open>
  C10. With no notebook loaded (the notebook state is null), \<open>updateBlock\<close> returns
  without an error (its result is a state, it has no error result) and that state is
  the one it was given, whatever the identifier and the payload.
\<close>

theorem updateBlock_no_notebook:
  "notebook st = None \<Longrightarrow> updateBlock i updates st = st"
  by (simp add: updateBlock_def)

theorem updateBlock_no_notebook_witness:
  "notebook no_notebook = None \<and> updateBlock ''a'' type_python no_notebook = no_notebook"
  using updateBlock_no_notebook [of no_notebook "''a''" type_python]
  by (simp add: no_notebook_def)

text \<open>
  C7. With a notebook loaded and an identifier that no block of it has, \<open>updateBlock\<close>
  leaves the whole state as it was: every block with every field, the file list, the
  notebook identifier and the selection, whatever the payload. (The state it commits is
  a new object with the same contents.)
\<close>

theorem updateBlock_unknown_id:
  assumes "notebook st = Some nb" and "i \<notin> id_b ` set (blocks nb)"
  shows "updateBlock i updates st = st"
proof -
  have "map (updateBlock_callback i updates) (blocks nb) = blocks nb"
    using assms(2) by (intro map_idI) (auto simp: updateBlock_callback_def)
  then show ?thesis
    using assms(1) by (simp add: updateBlock_def setNotebook_def)
qed

theorem updateBlock_unknown_id_witness:
  "notebook (example_state [example_block ''a'' 0, example_block ''b'' 1]) =
     Some (example_notebook [example_block ''a'' 0, example_block ''b'' 1])
   \<and> ''zz'' \<notin> id_b ` set (blocks (example_notebook [example_block ''a'' 0, example_block ''b'' 1]))
   \<and> updateBlock ''zz'' type_python (example_state [example_block ''a'' 0, example_block ''b'' 1]) =
       example_state [example_block ''a'' 0, example_block ''b'' 1]"
  using updateBlock_unknown_id
    [of "example_state [example_block ''a'' 0, example_block ''b'' 1]"
        "example_notebook [example_block ''a'' 0, example_block ''b'' 1]" "''zz''" type_python]
  by (simp add: example_state_def example_notebook_def example_block_def)

text \<open>
  A payload without a \<^verbatim>\<open>type\<close> property leaves the type of every block as it was.
\<close>

lemma updateBlock_callback_keeps_type:
  "type_u updates = None \<Longrightarrow> type_b (updateBlock_callback i updates block) = type_b block"
  by (simp add: updateBlock_callback_def spread_def)

text \<open>
  C1. The claim is that \<open>updateBlock\<close> leaves the type of the block it updates as it
  was, also for a payload that has a \<^verbatim>\<open>type\<close> property. The source says the same in
  its comment (always preserve the original type), and branches on the type of the
  block; but each branch spreads the payload over the block, so a \<^verbatim>\<open>type\<close> property of
  the payload replaces the block's. On the markdown block \<^verbatim>\<open>a\<close>, the payload
  \<^verbatim>\<open>{ type: 'python' }\<close> gives a block of type python.
\<close>

theorem updateBlock_overwrites_type:
  "type_b (example_block ''a'' 0) = Markdown
   \<and> updateBlock ''a'' type_python (example_state [example_block ''a'' 0]) =
       example_state [(example_block ''a'' 0)\<lparr>type_b := Python\<rparr>]"
  by (simp add: updateBlock_def updateBlock_callback_def spread_def setNotebook_def
      type_python_def no_updates_def example_state_def example_notebook_def example_block_def)

section \<open>createBlock\<close>

text \<open>
  C6. \<open>createBlock\<close> fails with the error \<^verbatim>\<open>No notebook loaded\<close> exactly when no notebook
  is loaded; with a notebook loaded it does not fail, and what it returns is the new
  block's identifier: the notebook it commits holds a block with the returned
  identifier, of the requested type.
\<close>

theorem createBlock_throws_iff:
  "(createBlock e ty pos st = Inl (Error ''No notebook loaded'')) = (notebook st = None)
   \<and> (notebook st \<noteq> None \<longrightarrow>
        (\<exists>nb' new console.
           createBlock e ty pos st = Inr (generateUUID e, st\<lparr>notebook := Some nb'\<rparr>, console)
         \<and> new \<in> set (blocks nb') \<and> id_b new = generateUUID e \<and> type_b new = ty))"
proof (cases "notebook st")
  case None
  then show ?thesis by (simp add: createBlock_def)
next
  case (Some nb)
  let ?fp = "id_n nb @ ''/'' @ generateUUID e @ ''.'' @ extension ty"
  let ?new = "newBlock (generateUUID e) ty ?fp
                 (case pos of Some p \<Rightarrow> p | None \<Rightarrow> int (length (blocks nb))) (now e)"
  let ?nb' = "nb\<lparr>blocks := sort_key position
                 ((case pos of None \<Rightarrow> blocks nb | Some p \<Rightarrow> map (shift_block p) (blocks nb)) @
                  [?new]),
               files := files nb @ [\<lparr>path = ?fp, type_f = ty\<rparr>]\<rparr>"
  from createBlock_loaded [OF Some, of e ty pos]
  obtain console where
    c: "createBlock e ty pos st = Inr (generateUUID e, st\<lparr>notebook := Some ?nb'\<rparr>, console)"
    by auto
  have "?new \<in> set (blocks ?nb')" by simp
  then have "\<exists>nb' new console.
           createBlock e ty pos st = Inr (generateUUID e, st\<lparr>notebook := Some nb'\<rparr>, console)
         \<and> new \<in> set (blocks nb') \<and> id_b new = generateUUID e \<and> type_b new = ty"
    using c by (intro exI [of _ ?nb'] exI [of _ ?new] exI [of _ console]) simp
  then show ?thesis using Some by auto
qed

theorem createBlock_throws_iff_witness:
  "createBlock example_env Python (Some 0) no_notebook = Inl (Error ''No notebook loaded'')
   \<and> notebook (example_state []) \<noteq> None
   \<and> (\<exists>nb' new console.
         createBlock example_env Python (Some 0) (example_state []) =
           Inr (''new'', (example_state [])\<lparr>notebook := Some nb'\<rparr>, console)
       \<and> new \<in> set (blocks nb') \<and> id_b new = ''new'' \<and> type_b new = Python)"
  using createBlock_throws_iff [of example_env Python "Some 0" no_notebook]
    createBlock_throws_iff [of example_env Python "Some 0" "example_state []"]
  by (simp add: no_notebook_def example_state_def example_env_def)

text \<open>
  C3. As stated, for every position, the claim fails where the sum is no longer exact:
  in the notebook whose one block \<^verbatim>\<open>a\<close> is at position \<open>2 ^ 53 = 9007199254740992\<close>,
  \<open>createBlock\<close> with that position leaves \<^verbatim>\<open>a\<close> where it was (\<^verbatim>\<open>position += 1\<close> is
  rounded back), and commits two blocks at \<open>2 ^ 53\<close> and none at \<open>2 ^ 53 + 1\<close>.
\<close>

theorem createBlock_shift_absorbed:
  "positions_after
     (createBlock example_env Markdown (Some 9007199254740992)
        (example_state [example_block ''a'' 9007199254740992]))
     = [9007199254740992, 9007199254740992]
   \<and> 9007199254740992 + 1 \<notin> set
       (positions_after
          (createBlock example_env Markdown (Some 9007199254740992)
             (example_state [example_block ''a'' 9007199254740992])))"
  by (simp add: positions_def positions_after_def createBlock_def Let_def setNotebook_def
      shift_loop_map shift_block_def number_add_absorbed
      example_state_def example_notebook_def example_block_def example_env_def)

text \<open>
  C3, amended. With a notebook loaded whose positions are safe integers, \<open>createBlock\<close>
  with an explicit safe-integer position \<open>p\<close> commits a notebook whose blocks are the
  blocks it had, each with its position raised by exactly one if that position was at
  least \<open>p\<close> and unchanged if it was below \<open>p\<close> (no other field of a block changes),
  together with one new block, of the requested type and with the new identifier, at
  position \<open>p\<close>.
\<close>

theorem createBlock_shifts_from_position:
  assumes "notebook st = Some nb"
    and "isSafeInteger p"
    and "\<forall>b\<in>set (blocks nb). isSafeInteger (position b)"
  shows "\<exists>nb' new console.
           createBlock e ty (Some p) st = Inr (generateUUID e, st\<lparr>notebook := Some nb'\<rparr>, console)
         \<and> id_b new = generateUUID e \<and> type_b new = ty \<and> position new = p
         \<and> mset (blocks nb') =
             image_mset (\<lambda>b. if p \<le> position b then b\<lparr>position := position b + 1\<rparr> else b)
               (mset (blocks nb)) + {#new#}"
proof -
  let ?new = "newBlock (generateUUID e) ty
                 (id_n nb @ ''/'' @ generateUUID e @ ''.'' @ extension ty) p (now e)"
  let ?nb' = "nb\<lparr>blocks := sort_key position (map (shift_exact p) (blocks nb) @ [?new]),
               files := files nb @
                 [\<lparr>path = id_n nb @ ''/'' @ generateUUID e @ ''.'' @ extension ty,
                   type_f = ty\<rparr>]\<rparr>"
  from createBlock_loaded_safe [OF assms(1) assms(3), of e ty p]
  obtain console where
    c: "createBlock e ty (Some p) st = Inr (generateUUID e, st\<lparr>notebook := Some ?nb'\<rparr>, console)"
    by auto
  have "mset (blocks ?nb') =
      image_mset (\<lambda>b. if p \<le> position b then b\<lparr>position := position b + 1\<rparr> else b)
               (mset (blocks nb)) + {#?new#}"
    by (simp add: shift_exact_lambda)
  with c show ?thesis
    by (intro exI [of _ ?nb'] exI [of _ ?new] exI [of _ console]) simp
qed

theorem createBlock_shifts_from_position_witness:
  "notebook (example_state [example_block ''a'' 0, example_block ''b'' 1, example_block ''c'' 2]) =
     Some (example_notebook [example_block ''a'' 0, example_block ''b'' 1, example_block ''c'' 2])
   \<and> isSafeInteger 1
   \<and> isSafeInteger (position (example_block ''a'' 0))
   \<and> isSafeInteger (position (example_block ''b'' 1))
   \<and> isSafeInteger (position (example_block ''c'' 2))
   \<and> (\<exists>nb' new console.
         createBlock example_env Markdown (Some 1)
           (example_state [example_block ''a'' 0, example_block ''b'' 1, example_block ''c'' 2]) =
         Inr (''new'',
              (example_state [example_block ''a'' 0, example_block ''b'' 1, example_block ''c'' 2])
                \<lparr>notebook := Some nb'\<rparr>, console)
       \<and> id_b new = ''new'' \<and> type_b new = Markdown \<and> position new = 1
       \<and> mset (blocks nb') =
           {#new, example_block ''a'' 0, example_block ''b'' 2, example_block ''c'' 3#})"
  using createBlock_shifts_from_position
    [of "example_state [example_block ''a'' 0, example_block ''b'' 1, example_block ''c'' 2]"
        "example_notebook [example_block ''a'' 0, example_block ''b'' 1, example_block ''c'' 2]"
        1 example_env Markdown]
  by (simp add: example_state_def example_notebook_def example_block_def example_env_def
      isSafeInteger_def MAX_SAFE_INTEGER_def)

text \<open>
  C2. As stated, for every notebook with pairwise distinct positions and every call,
  with or without a position, the claim fails: without a position the new block gets
  the number of blocks as its position, which a block may already have. The notebook
  with one block at position 1 has distinct positions; a call without a position
  commits two blocks at position 1.
\<close>

theorem createBlock_append_repeats_position:
  "distinct (positions (example_state [example_block ''a'' 1]))
   \<and> positions_after (createBlock example_env Markdown None (example_state [example_block ''a'' 1]))
       = [1, 1]
   \<and> \<not> distinct
         (positions_after
            (createBlock example_env Markdown None (example_state [example_block ''a'' 1])))"
  by (simp add: positions_def positions_after_def createBlock_def Let_def setNotebook_def
      example_state_def example_notebook_def example_block_def example_env_def)

text \<open>
  C2, amended. With a notebook loaded whose blocks have pairwise distinct positions,
  a call of \<open>createBlock\<close> without a position, when no block has the number of blocks as
  its position, or with an explicit position, when that position and the positions of
  the notebook are safe integers, commits blocks that again have pairwise distinct
  positions; and the blocks the notebook had come in the committed list in the order
  of the positions they had: the committed list without the new block is the old list
  sorted by position (the old list itself, if it was in position order), each block
  shifted or not as the position argument says.
\<close>

theorem createBlock_keeps_positions_distinct:
  assumes "notebook st = Some nb"
    and "distinct (map position (blocks nb))"
    and "pos = None \<longrightarrow> int (length (blocks nb)) \<notin> position ` set (blocks nb)"
    and "\<forall>p. pos = Some p \<longrightarrow>
           isSafeInteger p \<and> (\<forall>b\<in>set (blocks nb). isSafeInteger (position b))"
  shows "\<exists>nb' console.
           createBlock e ty pos st = Inr (generateUUID e, st\<lparr>notebook := Some nb'\<rparr>, console)
         \<and> distinct (map position (blocks nb'))
         \<and> filter (\<lambda>b. position b \<noteq> (case pos of Some p \<Rightarrow> p | None \<Rightarrow> int (length (blocks nb))))
              (blocks nb') =
            map (\<lambda>b. case pos of None \<Rightarrow> b
                     | Some p \<Rightarrow> if p \<le> position b then b\<lparr>position := position b + 1\<rparr> else b)
              (sort_key position (blocks nb))"
proof (cases pos)
  case None
  let ?new = "newBlock (generateUUID e) ty (id_n nb @ ''/'' @ generateUUID e @ ''.'' @ extension ty)
                 (int (length (blocks nb))) (now e)"
  let ?nb' = "nb\<lparr>blocks := sort_key position (blocks nb @ [?new]),
               files := files nb @
                 [\<lparr>path = id_n nb @ ''/'' @ generateUUID e @ ''.'' @ extension ty,
                   type_f = ty\<rparr>]\<rparr>"
  from createBlock_loaded [OF assms(1), of e ty pos] None
  obtain console where
    c: "createBlock e ty pos st = Inr (generateUUID e, st\<lparr>notebook := Some ?nb'\<rparr>, console)"
    by auto
  have fresh: "int (length (blocks nb)) \<notin> position ` set (blocks nb)"
    using assms(3) None by simp
  have d: "distinct (map position (blocks ?nb'))"
    using distinct_positions_append_new [OF assms(2) fresh, of ?new] by simp
  have f: "filter (\<lambda>b. position b \<noteq> int (length (blocks nb))) (blocks ?nb') =
           sort_key position (blocks nb)"
    using filter_new_out [OF fresh, of ?new] by simp
  show ?thesis
    using c d f None by (intro exI [of _ ?nb'] exI [of _ console]) simp
next
  case (Some p)
  let ?new = "newBlock (generateUUID e) ty (id_n nb @ ''/'' @ generateUUID e @ ''.'' @ extension ty)
                 p (now e)"
  let ?nb' = "nb\<lparr>blocks := sort_key position (map (shift_exact p) (blocks nb) @ [?new]),
               files := files nb @
                 [\<lparr>path = id_n nb @ ''/'' @ generateUUID e @ ''.'' @ extension ty,
                   type_f = ty\<rparr>]\<rparr>"
  have safe: "\<forall>b\<in>set (blocks nb). isSafeInteger (position b)"
    using assms(4) Some by simp
  from createBlock_loaded_safe [OF assms(1) safe, of e ty p] Some
  obtain console where
    c: "createBlock e ty pos st = Inr (generateUUID e, st\<lparr>notebook := Some ?nb'\<rparr>, console)"
    by auto
  have d: "distinct (map position (blocks ?nb'))"
    using distinct_positions_append_new [OF distinct_shift [OF assms(2)] shift_exact_notin, of ?new p]
    by simp
  have "filter (\<lambda>b. position b \<noteq> p) (blocks ?nb') =
           sort_key position (map (shift_exact p) (blocks nb))"
    using filter_new_out [OF shift_exact_notin, of ?new p "blocks nb"] by simp
  then have f: "filter (\<lambda>b. position b \<noteq> p) (blocks ?nb') =
      map (\<lambda>b. if p \<le> position b then b\<lparr>position := position b + 1\<rparr> else b)
        (sort_key position (blocks nb))"
    using sort_key_shift_exact [of p "blocks nb"] by (simp add: shift_exact_lambda)
  show ?thesis
    using c d f Some by (intro exI [of _ ?nb'] exI [of _ console]) simp
qed

theorem createBlock_keeps_positions_distinct_witness:
  "notebook (example_state [example_block ''a'' 0, example_block ''b'' 5]) =
     Some (example_notebook [example_block ''a'' 0, example_block ''b'' 5])
   \<and> distinct (map position (blocks (example_notebook [example_block ''a'' 0, example_block ''b'' 5])))
   \<and> int (length (blocks (example_notebook [example_block ''a'' 0, example_block ''b'' 5])))
        \<notin> position ` set (blocks (example_notebook [example_block ''a'' 0, example_block ''b'' 5]))
   \<and> (\<exists>nb' console.
         createBlock example_env Csv None
           (example_state [example_block ''a'' 0, example_block ''b'' 5]) =
         Inr (''new'',
              (example_state [example_block ''a'' 0, example_block ''b'' 5])
                \<lparr>notebook := Some nb'\<rparr>, console)
       \<and> distinct (map position (blocks nb'))
       \<and> filter (\<lambda>b. position b \<noteq> 2) (blocks nb') =
           [example_block ''a'' 0, example_block ''b'' 5])
   \<and> isSafeInteger 5
   \<and> isSafeInteger (position (example_block ''a'' 0))
   \<and> isSafeInteger (position (example_block ''b'' 5))
   \<and> (\<exists>nb' console.
         createBlock example_env Csv (Some 5)
           (example_state [example_block ''a'' 0, example_block ''b'' 5]) =
         Inr (''new'',
              (example_state [example_block ''a'' 0, example_block ''b'' 5])
                \<lparr>notebook := Some nb'\<rparr>, console)
       \<and> distinct (map position (blocks nb'))
       \<and> filter (\<lambda>b. position b \<noteq> 5) (blocks nb') =
           [example_block ''a'' 0, example_block ''b'' 6])"
  using createBlock_keeps_positions_distinct
    [of "example_state [example_block ''a'' 0, example_block ''b'' 5]"
        "example_notebook [example_block ''a'' 0, example_block ''b'' 5]" None
        example_env Csv]
    createBlock_keeps_positions_distinct
    [of "example_state [example_block ''a'' 0, example_block ''b'' 5]"
        "example_notebook [example_block ''a'' 0, example_block ''b'' 5]" "Some 5"
        example_env Csv]
  by (simp add: example_state_def example_notebook_def example_block_def example_env_def
      isSafeInteger_def MAX_SAFE_INTEGER_def)

text \<open>
  C4. As stated, for every sequence of calls with explicit positions, the claim
  fails: from the empty notebook, two calls with the position
  \<open>2 ^ 53 = 9007199254740992\<close> commit two blocks at that position, since the shift of
  the first block is rounded back.
\<close>

theorem createBlock_seq_repeats_position:
  "sorted_wrt (<) (positions (example_state []))
   \<and> positions_final
       (createBlock_seq
          [(example_env, Markdown, 9007199254740992), (example_env, Python, 9007199254740992)]
          (example_state []))
     = [9007199254740992, 9007199254740992]
   \<and> \<not> distinct
       (positions_final
          (createBlock_seq
             [(example_env, Markdown, 9007199254740992), (example_env, Python, 9007199254740992)]
             (example_state [])))"
  by (simp add: positions_def positions_final_def createBlock_def Let_def setNotebook_def
      shift_loop_map shift_block_def number_add_absorbed newBlock_def
      example_state_def example_notebook_def example_env_def)

text \<open>
  C4, amended. Starting from a loaded notebook that is empty or whose block list is
  strictly increasing in position, a sequence of \<open>createBlock\<close> calls with explicit
  positions succeeds and leaves positions that are pairwise distinct, and strictly
  increasing once sorted (the committed block list is itself in strictly increasing
  position order), provided every position of the notebook and every position
  supplied is a safe integer and stays one when raised by the number of calls.
\<close>

theorem createBlock_seq_strictly_increasing:
  assumes "notebook st = Some nb" and "sorted_wrt (<) (positions st)"
    and "\<forall>x\<in>set (positions st).
           - MAX_SAFE_INTEGER \<le> x \<and> x + int (length calls) \<le> MAX_SAFE_INTEGER"
    and "\<forall>c\<in>set calls.
           - MAX_SAFE_INTEGER \<le> snd (snd c)
           \<and> snd (snd c) + int (length calls) \<le> MAX_SAFE_INTEGER"
  shows "\<exists>st'. createBlock_seq calls st = Inr st'
           \<and> notebook st' \<noteq> None
           \<and> distinct (positions st')
           \<and> sorted_wrt (<) (sort (positions st'))
           \<and> sorted_wrt (<) (positions st')"
  using assms
proof (induction calls arbitrary: st nb)
  case Nil
  then show ?case
    by (simp add: strict_sorted_iff)
next
  case (Cons c calls)
  obtain e ty p where c: "c = (e, ty, p)" by (cases c)
  have d: "distinct (map position (blocks nb))"
    using Cons.prems(1,2) by (simp add: positions_def strict_sorted_iff)
  have old: "\<forall>x\<in>set (map position (blocks nb)).
           - MAX_SAFE_INTEGER \<le> x \<and> x + int (length calls) + 1 \<le> MAX_SAFE_INTEGER"
    using Cons.prems(1,3) by (auto simp: positions_def)
  then have safe: "\<forall>b\<in>set (blocks nb). isSafeInteger (position b)"
    by (fastforce simp: isSafeInteger_def)
  have pb: "- MAX_SAFE_INTEGER \<le> p \<and> p + int (length calls) + 1 \<le> MAX_SAFE_INTEGER"
    using Cons.prems(4) c by auto
  from createBlock_strictly_ordered [OF Cons.prems(1) d safe, of e ty p]
  obtain nb' i console where
    step: "createBlock e ty (Some p) st = Inr (i, st\<lparr>notebook := Some nb'\<rparr>, console)"
    and ord: "sorted_wrt (<) (map position (blocks nb'))"
    and bnd: "\<forall>x\<in>set (map position (blocks nb')).
               x = p \<or> (\<exists>y\<in>set (map position (blocks nb)). y \<le> x \<and> x \<le> y + 1)"
    by blast
  have n': "notebook (st\<lparr>notebook := Some nb'\<rparr>) = Some nb'" by simp
  have o': "sorted_wrt (<) (positions (st\<lparr>notebook := Some nb'\<rparr>))"
    using ord by (simp add: positions_def)
  have "- MAX_SAFE_INTEGER \<le> x \<and> x + int (length calls) \<le> MAX_SAFE_INTEGER"
    if "x \<in> set (map position (blocks nb'))" for x
  proof -
    from bnd that
    have "x = p \<or> (\<exists>y\<in>set (map position (blocks nb)). y \<le> x \<and> x \<le> y + 1)"
      by blast
    then show ?thesis
    proof
      assume "x = p"
      then show ?thesis using pb by simp
    next
      assume "\<exists>y\<in>set (map position (blocks nb)). y \<le> x \<and> x \<le> y + 1"
      then obtain y where y: "y \<in> set (map position (blocks nb))" "y \<le> x" "x \<le> y + 1"
        by blast
      from old y(1)
      have "- MAX_SAFE_INTEGER \<le> y \<and> y + int (length calls) + 1 \<le> MAX_SAFE_INTEGER"
        by blast
      then show ?thesis using y(2,3) by linarith
    qed
  qed
  then have p': "\<forall>x\<in>set (positions (st\<lparr>notebook := Some nb'\<rparr>)).
           - MAX_SAFE_INTEGER \<le> x \<and> x + int (length calls) \<le> MAX_SAFE_INTEGER"
    by (simp add: positions_def)
  have c': "\<forall>c\<in>set calls.
           - MAX_SAFE_INTEGER \<le> snd (snd c)
           \<and> snd (snd c) + int (length calls) \<le> MAX_SAFE_INTEGER"
    using Cons.prems(4) by fastforce
  have "\<exists>st'. createBlock_seq calls (st\<lparr>notebook := Some nb'\<rparr>) = Inr st'
           \<and> notebook st' \<noteq> None
           \<and> distinct (positions st')
           \<and> sorted_wrt (<) (sort (positions st'))
           \<and> sorted_wrt (<) (positions st')"
    using n' o' p' c' by (rule Cons.IH)
  then show ?case using c step by simp
qed

theorem createBlock_seq_strictly_increasing_witness:
  "notebook (example_state [example_block ''a'' 0, example_block ''b'' 1, example_block ''c'' 2]) =
     Some (example_notebook [example_block ''a'' 0, example_block ''b'' 1, example_block ''c'' 2])
   \<and> sorted_wrt (<)
       (positions (example_state [example_block ''a'' 0, example_block ''b'' 1, example_block ''c'' 2]))
   \<and> positions (example_state [example_block ''a'' 0, example_block ''b'' 1, example_block ''c'' 2])
       = [0, 1, 2]
   \<and> - MAX_SAFE_INTEGER \<le> 0 \<and> 2 + 2 \<le> MAX_SAFE_INTEGER
   \<and> - MAX_SAFE_INTEGER \<le> 1 \<and> 1 + 2 \<le> MAX_SAFE_INTEGER
   \<and> (\<exists>st'. createBlock_seq [(example_env, Markdown, 1), (example_env, Python, 1)]
               (example_state [example_block ''a'' 0, example_block ''b'' 1, example_block ''c'' 2])
             = Inr st'
           \<and> notebook st' \<noteq> None
           \<and> distinct (positions st')
           \<and> sorted_wrt (<) (sort (positions st'))
           \<and> sorted_wrt (<) (positions st'))"
  using createBlock_seq_strictly_increasing
    [of "example_state [example_block ''a'' 0, example_block ''b'' 1, example_block ''c'' 2]"
        "example_notebook [example_block ''a'' 0, example_block ''b'' 1, example_block ''c'' 2]"
        "[(example_env, Markdown, 1), (example_env, Python, 1)]"]
  by (simp add: positions_def example_state_def example_notebook_def example_block_def
      MAX_SAFE_INTEGER_def)

text \<open>
  The example of the spec: blocks at positions 0, 1, 2 and \<^verbatim>\<open>createBlock('markdown', 1)\<close>
  give the positions 0, 1, 2, 3, the new block second.
\<close>

lemma createBlock_example_positions:
  "positions_after
     (createBlock example_env Markdown (Some 1)
        (example_state [example_block ''a'' 0, example_block ''b'' 1, example_block ''c'' 2]))
   = [0, 1, 2, 3]
   \<and> map id_b (blocks (example_notebook [example_block ''a'' 0, example_block ''b'' 1])) = [''a'', ''b'']"
  by (simp add: positions_def positions_after_def createBlock_def Let_def setNotebook_def
      shift_loop_map shift_block_def newBlock_def number_add_safe
      isSafeInteger_def MAX_SAFE_INTEGER_def
      example_state_def example_notebook_def example_block_def example_env_def)

text \<open>
  C8. With the notebook \<open>nb\<close> loaded, \<open>createBlock\<close> commits a new block, with the new
  identifier and the requested type, whose file path is the notebook identifier, a
  slash, the new identifier and the extension of the type (\<^verbatim>\<open>.md\<close>, \<^verbatim>\<open>.py\<close>, \<^verbatim>\<open>.csv\<close>);
  and the committed file list is the old one followed by exactly one descriptor, of
  that path and that type.
\<close>

theorem createBlock_file_path:
  assumes "notebook st = Some nb"
  shows "\<exists>nb' new console.
           createBlock e ty pos st = Inr (generateUUID e, st\<lparr>notebook := Some nb'\<rparr>, console)
         \<and> new \<in> set (blocks nb') \<and> id_b new = generateUUID e \<and> type_b new = ty
         \<and> filePath new = id_n nb @ ''/'' @ generateUUID e @
              (case ty of Markdown \<Rightarrow> ''.md'' | Python \<Rightarrow> ''.py'' | Csv \<Rightarrow> ''.csv'')
         \<and> files nb' = files nb @
              [\<lparr>path = id_n nb @ ''/'' @ generateUUID e @
                  (case ty of Markdown \<Rightarrow> ''.md'' | Python \<Rightarrow> ''.py'' | Csv \<Rightarrow> ''.csv''),
                type_f = ty\<rparr>]"
proof -
  let ?fp = "id_n nb @ ''/'' @ generateUUID e @ ''.'' @ extension ty"
  let ?new = "newBlock (generateUUID e) ty ?fp
                 (case pos of Some p \<Rightarrow> p | None \<Rightarrow> int (length (blocks nb))) (now e)"
  let ?nb' = "nb\<lparr>blocks := sort_key position
                 ((case pos of None \<Rightarrow> blocks nb | Some p \<Rightarrow> map (shift_block p) (blocks nb)) @
                  [?new]),
               files := files nb @ [\<lparr>path = ?fp, type_f = ty\<rparr>]\<rparr>"
  from createBlock_loaded [OF assms, of e ty pos]
  obtain console where
    c: "createBlock e ty pos st = Inr (generateUUID e, st\<lparr>notebook := Some ?nb'\<rparr>, console)"
    by auto
  have fp: "?fp = id_n nb @ ''/'' @ generateUUID e @
              (case ty of Markdown \<Rightarrow> ''.md'' | Python \<Rightarrow> ''.py'' | Csv \<Rightarrow> ''.csv'')"
    by (cases ty) (simp_all add: extension_def)
  have "?new \<in> set (blocks ?nb')" by simp
  then show ?thesis
    using c fp by (intro exI [of _ ?nb'] exI [of _ ?new] exI [of _ console]) simp
qed

theorem createBlock_file_path_witness:
  "notebook (example_state [example_block ''a'' 0]) = Some (example_notebook [example_block ''a'' 0])
   \<and> (\<exists>nb' new console.
         createBlock example_env Python None (example_state [example_block ''a'' 0]) =
           Inr (''new'', (example_state [example_block ''a'' 0])\<lparr>notebook := Some nb'\<rparr>, console)
       \<and> new \<in> set (blocks nb') \<and> id_b new = ''new'' \<and> type_b new = Python
       \<and> filePath new = ''nb/new.py''
       \<and> files nb' = [\<lparr>path = ''nb/new.py'', type_f = Python\<rparr>])"
  using createBlock_file_path
    [of "example_state [example_block ''a'' 0]" "example_notebook [example_block ''a'' 0]"
        example_env Python None]
  by (simp add: example_state_def example_notebook_def example_env_def)

text \<open>
  C9. With a notebook loaded, whatever \<^verbatim>\<open>fetch\<close> does (resolve, or reject with any
  error), \<open>createBlock\<close> returns the new identifier, never an error, and commits one and
  the same state: the notebook with one block more, the new block among them, and the
  descriptor of the new block's file appended to the file list.
\<close>

theorem createBlock_ignores_fetch_outcome:
  assumes "notebook st = Some nb"
  shows "\<exists>nb' new.
           (\<forall>f. \<exists>console. createBlock (e\<lparr>fetch := f\<rparr>) ty pos st =
                  Inr (generateUUID e, st\<lparr>notebook := Some nb'\<rparr>, console))
         \<and> new \<in> set (blocks nb') \<and> id_b new = generateUUID e
         \<and> length (blocks nb') = length (blocks nb) + 1
         \<and> files nb' = files nb @ [\<lparr>path = filePath new, type_f = ty\<rparr>]"
proof -
  let ?fp = "id_n nb @ ''/'' @ generateUUID e @ ''.'' @ extension ty"
  let ?new = "newBlock (generateUUID e) ty ?fp
                 (case pos of Some p \<Rightarrow> p | None \<Rightarrow> int (length (blocks nb))) (now e)"
  let ?nb' = "nb\<lparr>blocks := sort_key position
                 ((case pos of None \<Rightarrow> blocks nb | Some p \<Rightarrow> map (shift_block p) (blocks nb)) @
                  [?new]),
               files := files nb @ [\<lparr>path = ?fp, type_f = ty\<rparr>]\<rparr>"
  have "\<exists>console. createBlock (e\<lparr>fetch := f\<rparr>) ty pos st =
                  Inr (generateUUID e, st\<lparr>notebook := Some ?nb'\<rparr>, console)" for f
    using createBlock_loaded [OF assms, of "e\<lparr>fetch := f\<rparr>" ty pos] by simp
  moreover have "?new \<in> set (blocks ?nb')" by simp
  moreover have "length (blocks ?nb') = length (blocks nb) + 1"
    by (cases pos) simp_all
  ultimately show ?thesis
    by (intro exI [of _ ?nb'] exI [of _ ?new]) simp
qed

theorem createBlock_ignores_fetch_outcome_witness:
  "notebook (example_state [example_block ''a'' 0]) = Some (example_notebook [example_block ''a'' 0])
   \<and> (\<exists>nb' new.
         (\<exists>console. createBlock (example_env\<lparr>fetch := fetch_rejects\<rparr>) Csv (Some 0)
              (example_state [example_block ''a'' 0]) =
            Inr (''new'', (example_state [example_block ''a'' 0])\<lparr>notebook := Some nb'\<rparr>, console))
       \<and> (\<exists>console. createBlock (example_env\<lparr>fetch := fetch_resolves\<rparr>) Csv (Some 0)
              (example_state [example_block ''a'' 0]) =
            Inr (''new'', (example_state [example_block ''a'' 0])\<lparr>notebook := Some nb'\<rparr>, console))
       \<and> new \<in> set (blocks nb') \<and> id_b new = ''new''
       \<and> length (blocks nb') = 2
       \<and> files nb' = [\<lparr>path = filePath new, type_f = Csv\<rparr>])"
proof -
  have h: "notebook (example_state [example_block ''a'' 0]) =
           Some (example_notebook [example_block ''a'' 0])"
    by (simp add: example_state_def)
  from createBlock_ignores_fetch_outcome [OF h, of example_env Csv "Some 0"]
  obtain nb' new where
    a: "\<forall>f. \<exists>console. createBlock (example_env\<lparr>fetch := f\<rparr>) Csv (Some 0)
              (example_state [example_block ''a'' 0]) =
            Inr (generateUUID example_env,
                 (example_state [example_block ''a'' 0])\<lparr>notebook := Some nb'\<rparr>, console)"
    and b: "new \<in> set (blocks nb')" "id_b new = generateUUID example_env"
      "length (blocks nb') = length (blocks (example_notebook [example_block ''a'' 0])) + 1"
      "files nb' = files (example_notebook [example_block ''a'' 0]) @
         [\<lparr>path = filePath new, type_f = Csv\<rparr>]"
    by blast
  have u: "generateUUID example_env = ''new''"
    by (simp add: example_env_def)
  from a have "\<exists>console. createBlock (example_env\<lparr>fetch := fetch_rejects\<rparr>) Csv (Some 0)
              (example_state [example_block ''a'' 0]) =
            Inr (''new'', (example_state [example_block ''a'' 0])\<lparr>notebook := Some nb'\<rparr>, console)"
    unfolding u by blast
  moreover from a have "\<exists>console. createBlock (example_env\<lparr>fetch := fetch_resolves\<rparr>) Csv (Some 0)
              (example_state [example_block ''a'' 0]) =
            Inr (''new'', (example_state [example_block ''a'' 0])\<lparr>notebook := Some nb'\<rparr>, console)"
    unfolding u by blast
  moreover have "length (blocks nb') = 2" "files nb' = [\<lparr>path = filePath new, type_f = Csv\<rparr>]"
    using b(3,4) by (simp_all add: example_notebook_def)
  ultimately show ?thesis
    using h b(1,2) u by (intro conjI exI [of _ nb'] exI [of _ new]) simp_all
qed

text \<open>
  The console line of a rejected \<^verbatim>\<open>fetch\<close> is the only trace of the failure.
\<close>

lemma createBlock_fetch_rejected_logs:
  "createBlock (example_env\<lparr>fetch := fetch_rejects\<rparr>) Csv None (example_state []) =
     Inr (''new'',
          \<lparr>notebook = Some \<lparr>id_n = ''nb'',
              blocks = [newBlock ''new'' Csv ''nb/new.csv'' 0 ''2025-01-01T00:00:00.000Z''],
              files = [\<lparr>path = ''nb/new.csv'', type_f = Csv\<rparr>]\<rparr>,
           selectedBlockId = None\<rparr>,
          [''Failed to create file: TypeError: Failed to fetch''])"
  by (simp add: createBlock_def Let_def setNotebook_def extension_def fetch_rejects_def
      example_state_def example_notebook_def example_env_def)

section \<open>The file endpoint: responses\<close>

text \<open>
  C5. For every path: when the storage service returns, \<open>GET\<close> answers with the body
  \<^verbatim>\<open>{ content }\<close> and \<open>DELETE\<close> with the body \<^verbatim>\<open>{ success: true }\<close>; when the storage
  service throws (from its operation, or when it is obtained) the handler lets no
  exception through and answers with status 500 and the body
  \<^verbatim>\<open>{ error: 'Failed to fetch file' }\<close> (\<open>GET\<close>) or \<^verbatim>\<open>{ error: 'Failed to delete file' }\<close>
  (\<open>DELETE\<close>).
\<close>

theorem file_endpoint_responses:
  "(getFile svc (join p ''/'') = Inr content \<longrightarrow>
      (\<exists>r. fst (GET (Inr svc) p) = Inr r \<and> body r = [(''content'', JString content)]))
   \<and> (getFile svc (join p ''/'') = Inl err \<longrightarrow>
      fst (GET (Inr svc) p) =
        Inr \<lparr>status = 500, body = [(''error'', JString ''Failed to fetch file'')]\<rparr>)
   \<and> fst (GET (Inl err) p) =
        Inr \<lparr>status = 500, body = [(''error'', JString ''Failed to fetch file'')]\<rparr>
   \<and> (deleteFile svc (join p ''/'') = Inr u \<longrightarrow>
      (\<exists>r. fst (DELETE (Inr svc) p) = Inr r \<and> body r = [(''success'', JBool True)]))
   \<and> (deleteFile svc (join p ''/'') = Inl err \<longrightarrow>
      fst (DELETE (Inr svc) p) =
        Inr \<lparr>status = 500, body = [(''error'', JString ''Failed to delete file'')]\<rparr>)
   \<and> fst (DELETE (Inl err) p) =
        Inr \<lparr>status = 500, body = [(''error'', JString ''Failed to delete file'')]\<rparr>"
  by (simp add: GET_def GET_try_def DELETE_def DELETE_try_def NextResponse_json_def)

theorem file_endpoint_responses_witness:
  "getFile example_storage (join [''a'', ''b.txt''] ''/'') = Inr ''hello''
   \<and> (\<exists>r. fst (GET (Inr example_storage) [''a'', ''b.txt'']) = Inr r
          \<and> body r = [(''content'', JString ''hello'')])
   \<and> deleteFile example_storage (join [''a'', ''b.txt''] ''/'') = Inr ()
   \<and> (\<exists>r. fst (DELETE (Inr example_storage) [''a'', ''b.txt'']) = Inr r
          \<and> body r = [(''success'', JBool True)])
   \<and> getFile example_storage (join [''c''] ''/'') = Inl ''ENOENT''
   \<and> fst (GET (Inr example_storage) [''c'']) =
        Inr \<lparr>status = 500, body = [(''error'', JString ''Failed to fetch file'')]\<rparr>
   \<and> deleteFile example_storage (join [''c''] ''/'') = Inl ''ENOENT''
   \<and> fst (DELETE (Inr example_storage) [''c'']) =
        Inr \<lparr>status = 500, body = [(''error'', JString ''Failed to delete file'')]\<rparr>"
proof -
  have ok: "getFile example_storage (join [''a'', ''b.txt''] ''/'') = Inr ''hello''"
    "deleteFile example_storage (join [''a'', ''b.txt''] ''/'') = Inr ()"
    by (simp_all add: example_storage_def example_getFile_def example_deleteFile_def)
  have ko: "getFile example_storage (join [''c''] ''/'') = Inl ''ENOENT''"
    "deleteFile example_storage (join [''c''] ''/'') = Inl ''ENOENT''"
    by (simp_all add: example_storage_def example_getFile_def example_deleteFile_def)
  show ?thesis
    using ok ko
      file_endpoint_responses [of example_storage "[''a'', ''b.txt'']" "''hello''" "''ENOENT''" "()"]
      file_endpoint_responses [of example_storage "[''c'']" "''hello''" "''ENOENT''" "()"]
    by simp
qed

end
